theory Spec2Isabelle
  imports Main "HOL-Library.Word"
begin

section \<open>The history container of src/main.cpp\<close>

text \<open>
  The program reads a whole \<^verbatim>\<open>mra.dbs\<close> file into a byte vector and walks two linked
  lists stored in it: the chain of correspondent records (\<^verbatim>\<open>get_history\<close>) and, for one
  correspondent, the chain of message records (\<^verbatim>\<open>get_messages\<close>). Records are named by
  numeric IDs; the offset table turns an ID into a byte offset.

  The embedding keeps the C++ view of the data. The file is the list of its bytes and
  \<^verbatim>\<open>file_size\<close> is its length. A pointer into the file is the byte offset it points at, a
  natural number: pointer arithmetic is done on 64-bit addresses and does not wrap at
  32 bits. All multi-byte reads are little-endian, as on the machines the program is
  built for.
\<close>

subsection \<open>Outcomes\<close>

text \<open>
  What ends a run of the C++ code before it returns a value:
  \<^item> \<open>AssertionFailed\<close>: the program's own \<^verbatim>\<open>assert\<close> (lines 73-78), which prints
    \<^verbatim>\<open>Assertion failed!\<close> and calls \<^verbatim>\<open>exit(1)\<close>;
  \<^item> \<open>OutOfRangeRead\<close>: the code dereferences a pointer beyond the bytes of the object it
    points into. C++ gives this no meaning, so the embedding stops there;
  \<^item> \<open>RangeError\<close>: \<^verbatim>\<open>std::wstring_convert::to_bytes\<close> throws \<^verbatim>\<open>std::range_error\<close>, which
    nothing catches.
  The vectors \<^verbatim>\<open>emails\<close> and \<^verbatim>\<open>msgs\<close> are lists, and \<^verbatim>\<open>push_back\<close> always succeeds: running
  out of memory is not an outcome of the embedding. So nothing is said here about a loop
  that would push for ever, where the program ends with \<^verbatim>\<open>std::bad_alloc\<close>.
  A scan that returns has the outcome \<open>Inr\<close> of its result. A scan that runs forever has no
  outcome at all: the loops are partial functions into \<open>option\<close>, and \<open>None\<close> is
  "does not return".
\<close>

datatype failure = AssertionFailed | OutOfRangeRead | RangeError

type_synonym u8 = "8 word"
type_synonym u16 = "16 word"
type_synonym u32 = "32 word"

subsection \<open>Reading the file\<close>

text \<open>\<open>read_bytes file p n\<close>: the \<open>n\<close> bytes at offset \<open>p\<close>, when all of them are bytes of the file.\<close>

definition read_bytes :: "u8 list \<Rightarrow> nat \<Rightarrow> nat \<Rightarrow> u8 list option" where
  "read_bytes file p n = (if p + n \<le> length file then Some (take n (drop p file)) else None)"

text \<open>The value of a little-endian byte sequence.\<close>

fun le_nat :: "u8 list \<Rightarrow> nat" where
  "le_nat [] = 0"
| "le_nat (b # bs) = unat b + 256 * le_nat bs"

text \<open>\<^verbatim>\<open>*(uint32_t*) (file + p)\<close> and \<^verbatim>\<open>*(char16_t*) (file + p)\<close>.\<close>

definition read_u32 :: "u8 list \<Rightarrow> nat \<Rightarrow> u32 option" where
  "read_u32 file p = map_option (\<lambda>bs. of_nat (le_nat bs)) (read_bytes file p 4)"

definition read_u16 :: "u8 list \<Rightarrow> nat \<Rightarrow> u16 option" where
  "read_u16 file p = map_option (\<lambda>bs. of_nat (le_nat bs)) (read_bytes file p 2)"

text \<open>
  The offset table is passed as \<^verbatim>\<open>const uint32_t offset_table[]\<close>, a pointer to an array
  whose extent the callee does not know. \<open>offset_table i\<close> is the entry at index \<open>i\<close>, and
  \<open>None\<close> where index \<open>i\<close> lies outside the array.
\<close>

type_synonym offset_table = "nat \<Rightarrow> u32 option"

subsection \<open>Library functions the code calls\<close>

text \<open>
  \<^verbatim>\<open>memmem(haystack, haystacklen, needle, needlelen)\<close> of the C library: the position of the
  first occurrence of the needle in the haystack, or no position (\<^verbatim>\<open>NULL\<close>).
\<close>

fun memmem :: "u8 list \<Rightarrow> u8 list \<Rightarrow> nat option" where
  "memmem [] needle = (if needle = [] then Some 0 else None)"
| "memmem (h # hs) needle =
     (if take (length needle) (h # hs) = needle then Some 0
      else map_option Suc (memmem hs needle))"

text \<open>
  The zero-terminated run of UTF-16 code units that starts at the head of a byte list:
  what \<^verbatim>\<open>to_bytes(const char16_t*)\<close> takes as its input. There is no input when the bytes
  end before a zero code unit is met.
\<close>

fun cstr16 :: "u8 list \<Rightarrow> u16 list option" where
  "cstr16 (lo # hi # rest) =
     (let u = (of_nat (unat lo + 256 * unat hi) :: u16)
      in if u = 0 then Some [] else map_option ((#) u) (cstr16 rest))"
| "cstr16 _ = None"

text \<open>
  The conversion of \<^verbatim>\<open>std::codecvt_utf8_utf16<char16_t>\<close> from UTF-16 code units (given by
  their values) to UTF-8 bytes: one byte below \<^verbatim>\<open>0x80\<close>, two below \<^verbatim>\<open>0x800\<close>, three
  otherwise. A surrogate pair is one code point of four bytes. A high surrogate that is
  the last code unit ends the conversion without an error, with the bytes converted so
  far, as the conversion of libstdc++ does; any other surrogate without its partner is a
  conversion error.
\<close>

definition utf8_1 :: "nat \<Rightarrow> string" where
  "utf8_1 c = [char_of c]"

definition utf8_2 :: "nat \<Rightarrow> string" where
  "utf8_2 c = [char_of (192 + c div 64), char_of (128 + c mod 64)]"

definition utf8_3 :: "nat \<Rightarrow> string" where
  "utf8_3 c = [char_of (224 + c div 4096), char_of (128 + c div 64 mod 64),
               char_of (128 + c mod 64)]"

definition utf8_4 :: "nat \<Rightarrow> string" where
  "utf8_4 c = [char_of (240 + c div 262144), char_of (128 + c div 4096 mod 64),
               char_of (128 + c div 64 mod 64), char_of (128 + c mod 64)]"

fun utf16_to_utf8 :: "nat list \<Rightarrow> string option" where
  "utf16_to_utf8 [] = Some []"
| "utf16_to_utf8 (u # us) =
     (if u < 128 then map_option ((@) (utf8_1 u)) (utf16_to_utf8 us)
      else if u < 2048 then map_option ((@) (utf8_2 u)) (utf16_to_utf8 us)
      else if 55296 \<le> u \<and> u < 56320 then
        (case us of
           [] \<Rightarrow> Some []
         | v # vs \<Rightarrow>
             if 56320 \<le> v \<and> v < 57344
             then map_option ((@) (utf8_4 (65536 + (u - 55296) * 1024 + (v - 56320))))
                    (utf16_to_utf8 vs)
             else None)
      else if 56320 \<le> u \<and> u < 57344 then None
      else map_option ((@) (utf8_3 u)) (utf16_to_utf8 us))"

text \<open>
  \<^verbatim>\<open>utf16_to_utf8.to_bytes(p)\<close> for a \<^verbatim>\<open>char16_t*\<close> into the file at byte offset \<open>p\<close>.
\<close>

definition to_bytes :: "u8 list \<Rightarrow> nat \<Rightarrow> failure + string" where
  "to_bytes file p =
     (case cstr16 (drop p file) of
        None \<Rightarrow> Inl OutOfRangeRead
      | Some us \<Rightarrow>
          (case utf16_to_utf8 (map unat us) of
             None \<Rightarrow> Inl RangeError
           | Some s \<Rightarrow> Inr s))"

subsection \<open>Structs and constants\<close>

text \<open>
  \<^verbatim>\<open>struct Email\<close> and \<^verbatim>\<open>struct Message\<close>. Their pointer fields point to file bytes and
  are byte offsets here. The field \<^verbatim>\<open>text\<close> of \<^verbatim>\<open>Message\<close> is \<open>text_of\<close>, since \<open>text\<close> is a
  keyword of Isabelle. The strings are \<^verbatim>\<open>std::string\<close>s of UTF-8 bytes.
\<close>

record Email =
  name :: string
  id_pair :: nat

record Message =
  header :: nat
  author :: string
  text_of :: string

text \<open>The bytes of \<^verbatim>\<open>"mrahistory_"\<close> in UTF-16 (LE), lines 58-61.\<close>

definition mrahistory :: "u8 list" where
  "mrahistory =
     [0x6D, 0x00, 0x72, 0x00, 0x61, 0x00, 0x68, 0x00, 0x69, 0x00, 0x73, 0x00, 0x74, 0x00,
      0x6F, 0x00, 0x72, 0x00, 0x79, 0x00, 0x5F, 0x00]"

definition LAST_EMAIL_OFFSET :: nat where
  "LAST_EMAIL_OFFSET = 0x2C"

definition MRAHISTORY_OFFSET :: nat where
  "MRAHISTORY_OFFSET = 0x190"

definition TYPE_SMS :: u32 where
  "TYPE_SMS = 0x11"

text \<open>
  \<^verbatim>\<open>struct IdPair\<close> is two \<^verbatim>\<open>uint32_t\<close>: \<^verbatim>\<open>id1\<close> at byte 0 and \<^verbatim>\<open>id2\<close> at byte 4.

  \<^verbatim>\<open>struct MessageHeader\<close> (lines 26-44) has every field at its natural alignment, so the
  compiler adds no padding:
  \<^verbatim>\<open>size\<close> 0, \<^verbatim>\<open>prev_id\<close> 4, \<^verbatim>\<open>next_id\<close> 8, \<^verbatim>\<open>_unknown1\<close> 12, \<^verbatim>\<open>time\<close> 16 (8 bytes),
  \<^verbatim>\<open>type\<close> 24, \<^verbatim>\<open>flag_incoming\<close> 28, \<^verbatim>\<open>_unknown2\<close> 29 (3 bytes), \<^verbatim>\<open>nickname_length\<close> 32,
  \<^verbatim>\<open>magic_number\<close> 36, \<^verbatim>\<open>message_length\<close> 40, \<^verbatim>\<open>_unknown3\<close> 44, \<^verbatim>\<open>size_lps_rtf\<close> 48,
  \<^verbatim>\<open>_unknown4\<close> 52, and \<^verbatim>\<open>sizeof(MessageHeader)\<close> is 56.
\<close>

definition IdPair_id1 :: nat where "IdPair_id1 = 0"
definition IdPair_id2 :: nat where "IdPair_id2 = 4"

definition MessageHeader_prev_id :: nat where "MessageHeader_prev_id = 4"
definition MessageHeader_type :: nat where "MessageHeader_type = 24"
definition MessageHeader_nickname_length :: nat where "MessageHeader_nickname_length = 32"
definition MessageHeader_magic_number :: nat where "MessageHeader_magic_number = 36"
definition sizeof_MessageHeader :: nat where "sizeof_MessageHeader = 56"

subsection \<open>The correspondent scan\<close>

text \<open>
  One pass through the body of the \<^verbatim>\<open>while (last_email)\<close> loop of \<^verbatim>\<open>get_history\<close>
  (lines 112-134) for the record \<open>last_email\<close>: the \<^verbatim>\<open>Email\<close> pushed onto the vector, if
  one is, and the next value of \<^verbatim>\<open>last_email\<close>. The calls of \<^verbatim>\<open>log\<close> only print and are
  left out, here and below.
\<close>

definition get_history_body ::
  "u8 list \<Rightarrow> offset_table \<Rightarrow> u32 \<Rightarrow> failure + (Email option \<times> u32)" where
  "get_history_body file offset_table last_email =
     (case offset_table (unat last_email) of
        None \<Rightarrow> Inl OutOfRangeRead
      | Some current_offset \<Rightarrow>
          (if \<not> unat current_offset < length file then Inl AssertionFailed
           else
             (let id_pair_loc = unat current_offset + 4;
                  mrahistory_loc = id_pair_loc + MRAHISTORY_OFFSET
              in
                (case read_bytes file mrahistory_loc (length mrahistory) of
                   None \<Rightarrow> Inl OutOfRangeRead
                 | Some window \<Rightarrow>
                     (case (if memmem window mrahistory \<noteq> None
                            then
                              (case to_bytes file (mrahistory_loc + length mrahistory) of
                                 Inl e \<Rightarrow> Inl e
                               | Inr nm \<Rightarrow> Inr (Some \<lparr>name = nm, id_pair = id_pair_loc + 0x24\<rparr>))
                            else Inr None) of
                        Inl e \<Rightarrow> Inl e
                      | Inr pushed \<Rightarrow>
                          (case read_u32 file (id_pair_loc + IdPair_id2) of
                             None \<Rightarrow> Inl OutOfRangeRead
                           | Some id2 \<Rightarrow> Inr (pushed, id2)))))))"

text \<open>
  The loop itself (lines 111-135), with the vector \<^verbatim>\<open>emails\<close> as it stands when the loop
  test is made.
\<close>

partial_function (option) get_history_loop ::
  "u8 list \<Rightarrow> offset_table \<Rightarrow> u32 \<Rightarrow> Email list \<Rightarrow> (failure + Email list) option" where
  "get_history_loop file offset_table last_email emails =
     (if last_email = 0 then Some (Inr emails)
      else
        (case get_history_body file offset_table last_email of
           Inl e \<Rightarrow> Some (Inl e)
         | Inr (pushed, id2) \<Rightarrow>
             get_history_loop file offset_table id2
               (case pushed of None \<Rightarrow> emails | Some email \<Rightarrow> emails @ [email])))"

text \<open>\<^verbatim>\<open>get_history\<close> (lines 101-138).\<close>

definition get_history :: "u8 list \<Rightarrow> offset_table \<Rightarrow> (failure + Email list) option" where
  "get_history file offset_table =
     (case offset_table 1 of
        None \<Rightarrow> Some (Inl OutOfRangeRead)
      | Some anchor \<Rightarrow>
          (case read_u32 file (unat anchor + LAST_EMAIL_OFFSET) of
             None \<Rightarrow> Some (Inl OutOfRangeRead)
           | Some last_email \<Rightarrow> get_history_loop file offset_table last_email []))"

subsection \<open>The message scan\<close>

text \<open>
  The pointer \<^verbatim>\<open>text\<close> as it stands at line 158, for the header at byte offset \<open>hdr\<close>:
  lines 150-157. The \<^verbatim>\<open>&&\<close> reads \<^verbatim>\<open>header->type\<close> only when \<^verbatim>\<open>*text\<close> is zero.
\<close>

definition text_start :: "u8 list \<Rightarrow> nat \<Rightarrow> u32 \<Rightarrow> nat option" where
  "text_start file hdr nickname_length =
     (let author_loc = hdr + sizeof_MessageHeader;
          text_loc = author_loc + 2 * unat nickname_length
      in
        (case read_u16 file text_loc of
           None \<Rightarrow> None
         | Some first_unit \<Rightarrow>
             (if first_unit = 0
              then
                (case read_u32 file (hdr + MessageHeader_type) of
                   None \<Rightarrow> None
                 | Some type \<Rightarrow> Some (if type = TYPE_SMS then text_loc + 2 * 3 else text_loc))
              else Some text_loc)))"

text \<open>
  One pass through the body of the \<^verbatim>\<open>while (msg_id != 0)\<close> loop of \<^verbatim>\<open>get_messages\<close>
  (lines 147-167) for the record \<open>msg_id\<close>: the \<^verbatim>\<open>Message\<close> pushed onto the vector and the
  next value of \<^verbatim>\<open>msg_id\<close>.
\<close>

definition get_messages_body ::
  "u8 list \<Rightarrow> offset_table \<Rightarrow> u32 \<Rightarrow> failure + (Message \<times> u32)" where
  "get_messages_body file offset_table msg_id =
     (case offset_table (unat msg_id) of
        None \<Rightarrow> Inl OutOfRangeRead
      | Some offset \<Rightarrow>
          (case read_u32 file (unat offset + MessageHeader_magic_number) of
             None \<Rightarrow> Inl OutOfRangeRead
           | Some magic_number \<Rightarrow>
               (if magic_number \<noteq> 0x38 then Inl AssertionFailed
                else
                  (case read_u32 file (unat offset + MessageHeader_nickname_length) of
                     None \<Rightarrow> Inl OutOfRangeRead
                   | Some nickname_length \<Rightarrow>
                       (case text_start file (unat offset) nickname_length of
                          None \<Rightarrow> Inl OutOfRangeRead
                        | Some text_loc \<Rightarrow>
                            (case to_bytes file (unat offset + sizeof_MessageHeader) of
                               Inl e \<Rightarrow> Inl e
                             | Inr a \<Rightarrow>
                                 (case to_bytes file text_loc of
                                    Inl e \<Rightarrow> Inl e
                                  | Inr t \<Rightarrow>
                                      (case read_u32 file (unat offset + MessageHeader_prev_id) of
                                         None \<Rightarrow> Inl OutOfRangeRead
                                       | Some prev_id \<Rightarrow>
                                           Inr (\<lparr>header = unat offset, author = a, text_of = t\<rparr>,
                                                prev_id)))))))))"

text \<open>The loop itself (lines 146-168).\<close>

partial_function (option) get_messages_loop ::
  "u8 list \<Rightarrow> offset_table \<Rightarrow> u32 \<Rightarrow> Message list \<Rightarrow> (failure + Message list) option" where
  "get_messages_loop file offset_table msg_id msgs =
     (if msg_id = 0 then Some (Inr msgs)
      else
        (case get_messages_body file offset_table msg_id of
           Inl e \<Rightarrow> Some (Inl e)
         | Inr (msg, prev_id) \<Rightarrow> get_messages_loop file offset_table prev_id (msgs @ [msg])))"

text \<open>\<^verbatim>\<open>get_messages\<close> (lines 140-171): the chain starts at \<^verbatim>\<open>email.id_pair->id1\<close>.\<close>

definition get_messages ::
  "u8 list \<Rightarrow> offset_table \<Rightarrow> Email \<Rightarrow> (failure + Message list) option" where
  "get_messages file offset_table email =
     (case read_u32 file (id_pair email + IdPair_id1) of
        None \<Rightarrow> Some (Inl OutOfRangeRead)
      | Some msg_id \<Rightarrow> get_messages_loop file offset_table msg_id [])"

subsection \<open>The program run\<close>

text \<open>
  \<^verbatim>\<open>main\<close> (lines 173-211) finds the offset table inside the file: the \<^verbatim>\<open>uint32_t\<close> at byte
  \<^verbatim>\<open>0x10\<close> is the table's own byte offset, and entry \<open>i\<close> is the \<^verbatim>\<open>uint32_t\<close> at that offset
  plus \<open>4 * i\<close>.
\<close>

definition OFFSETS_TABLE_LOC_OFFSET :: nat where
  "OFFSETS_TABLE_LOC_OFFSET = 0x10"

definition offsets_table_at :: "u8 list \<Rightarrow> nat \<Rightarrow> offset_table" where
  "offsets_table_at file p = (\<lambda>i. read_u32 file (p + 4 * i))"

text \<open>
  The \<^verbatim>\<open>for (auto& email: emails)\<close> loop of \<^verbatim>\<open>main\<close> (lines 197-207). Its result is what
  the loop logs: every correspondent with its messages. A call of \<^verbatim>\<open>get_messages\<close> that
  does not return, or ends the process, ends the loop with it.
\<close>

fun main_loop ::
  "u8 list \<Rightarrow> offset_table \<Rightarrow> Email list \<Rightarrow> (failure + (Email \<times> Message list) list) option"
  where
  "main_loop file offset_table [] = Some (Inr [])"
| "main_loop file offset_table (email # rest) =
     (case get_messages file offset_table email of
        None \<Rightarrow> None
      | Some (Inl e) \<Rightarrow> Some (Inl e)
      | Some (Inr messages) \<Rightarrow>
          (case main_loop file offset_table rest of
             None \<Rightarrow> None
           | Some (Inl e) \<Rightarrow> Some (Inl e)
           | Some (Inr logged) \<Rightarrow> Some (Inr ((email, messages) # logged))))"

text \<open>
  \<^verbatim>\<open>main\<close> from line 182 on, for the bytes \<^verbatim>\<open>read_file\<close> has returned. Reading the file and
  checking \<^verbatim>\<open>argc\<close> are left out.
\<close>

definition main_run :: "u8 list \<Rightarrow> (failure + (Email \<times> Message list) list) option" where
  "main_run file =
     (case read_u32 file OFFSETS_TABLE_LOC_OFFSET of
        None \<Rightarrow> Some (Inl OutOfRangeRead)
      | Some offsets_table_offset \<Rightarrow>
          (let offsets_table = offsets_table_at file (unat offsets_table_offset) in
             (case get_history file offsets_table of
                None \<Rightarrow> None
              | Some (Inl e) \<Rightarrow> Some (Inl e)
              | Some (Inr emails) \<Rightarrow> main_loop file offsets_table emails)))"

section \<open>Descriptions of the chains\<close>

text \<open>
  \<open>history_chain file offset_table cursor ids\<close>: the correspondent loop, started with
  \<^verbatim>\<open>last_email = cursor\<close>, passes through its body for exactly the records \<open>ids\<close>, in this
  order, each pass ending without a failure, and then meets \<^verbatim>\<open>last_email == 0\<close>.
\<close>

fun history_chain :: "u8 list \<Rightarrow> offset_table \<Rightarrow> u32 \<Rightarrow> u32 list \<Rightarrow> bool" where
  "history_chain file offset_table cursor [] = (cursor = 0)"
| "history_chain file offset_table cursor (i # ids) =
     (cursor = i \<and> i \<noteq> 0 \<and>
      (case get_history_body file offset_table i of
         Inl e \<Rightarrow> False
       | Inr (pushed, id2) \<Rightarrow> history_chain file offset_table id2 ids))"

text \<open>What the pass for record \<open>i\<close> appends to \<^verbatim>\<open>emails\<close>: one \<^verbatim>\<open>Email\<close> or nothing.\<close>

definition pushed_by :: "u8 list \<Rightarrow> offset_table \<Rightarrow> u32 \<Rightarrow> Email list" where
  "pushed_by file offset_table i =
     (case get_history_body file offset_table i of
        Inl e \<Rightarrow> []
      | Inr (pushed, id2) \<Rightarrow> (case pushed of None \<Rightarrow> [] | Some email \<Rightarrow> [email]))"




text \<open>
  The signature test in words: the 22 bytes at \<open>(record_offset + 4) + 0x190\<close> are, byte for
  byte, the UTF-16LE encoding of the ASCII string \<^verbatim>\<open>mrahistory_\<close>.
\<close>

definition utf16le_ascii :: "string \<Rightarrow> u8 list" where
  "utf16le_ascii s = concat (map (\<lambda>c. [of_char c, 0]) s)"

definition signature_equal :: "u8 list \<Rightarrow> nat \<Rightarrow> bool" where
  "signature_equal file record_offset =
     (read_bytes file ((record_offset + 4) + 0x190) 22 = Some (utf16le_ascii ''mrahistory_''))"

text \<open>
  The pass of the correspondent loop with the signature test in words: what
  \<open>get_history_body\<close> does, except that the record is taken for a correspondent when
  \<open>signature_equal\<close> holds for it, where the source asks \<^verbatim>\<open>memmem\<close>.
\<close>

definition get_history_body_exact ::
  "u8 list \<Rightarrow> offset_table \<Rightarrow> u32 \<Rightarrow> failure + (Email option \<times> u32)" where
  "get_history_body_exact file offset_table last_email =
     (case offset_table (unat last_email) of
        None \<Rightarrow> Inl OutOfRangeRead
      | Some current_offset \<Rightarrow>
          (if \<not> unat current_offset < length file then Inl AssertionFailed
           else
             (let id_pair_loc = unat current_offset + 4;
                  mrahistory_loc = id_pair_loc + MRAHISTORY_OFFSET
              in
                (case read_bytes file mrahistory_loc (length mrahistory) of
                   None \<Rightarrow> Inl OutOfRangeRead
                 | Some window \<Rightarrow>
                     (case (if signature_equal file (unat current_offset)
                            then
                              (case to_bytes file (mrahistory_loc + length mrahistory) of
                                 Inl e \<Rightarrow> Inl e
                               | Inr nm \<Rightarrow> Inr (Some \<lparr>name = nm, id_pair = id_pair_loc + 0x24\<rparr>))
                            else Inr None) of
                        Inl e \<Rightarrow> Inl e
                      | Inr pushed \<Rightarrow>
                          (case read_u32 file (id_pair_loc + IdPair_id2) of
                             None \<Rightarrow> Inl OutOfRangeRead
                           | Some id2 \<Rightarrow> Inr (pushed, id2)))))))"

section \<open>Sample files\<close>

text \<open>Building blocks: a little-endian \<^verbatim>\<open>uint32_t\<close>, a zero-terminated UTF-16LE string, padding.\<close>

definition le32 :: "nat \<Rightarrow> u8 list" where
  "le32 n = [of_nat n, of_nat (n div 256), of_nat (n div 65536), of_nat (n div 16777216)]"

definition utf16z :: "string \<Rightarrow> u8 list" where
  "utf16z s = utf16le_ascii s @ [0, 0]"

definition zeros :: "nat \<Rightarrow> u8 list" where
  "zeros n = replicate n 0"

text \<open>
  The 48 bytes of the record with ID 1 that matter: the ID of the first correspondent at
  byte \<^verbatim>\<open>0x2C\<close>.
\<close>

definition anchor_bytes :: "nat \<Rightarrow> u8 list" where
  "anchor_bytes first = zeros 44 @ le32 first"

text \<open>
  A record of the correspondent chain: four bytes, the \<^verbatim>\<open>IdPair\<close> \<open>(id1, id2)\<close> at byte 4,
  the \<^verbatim>\<open>IdPair\<close> of the message chain at byte \<open>4 + 0x24\<close>, the 22 signature bytes \<open>sig\<close> at byte
  \<open>4 + 0x190\<close> and the name after them: \<open>426 + 2 * (length nm + 1)\<close> bytes in all.
\<close>

definition correspondent_bytes :: "nat \<Rightarrow> nat \<Rightarrow> nat \<Rightarrow> u8 list \<Rightarrow> string \<Rightarrow> u8 list" where
  "correspondent_bytes id1 id2 head sig nm =
     zeros 4 @ le32 id1 @ le32 id2 @ zeros 28 @ le32 head @ le32 0 @ zeros 356 @ sig @ utf16z nm"

text \<open>
  The 56 bytes of a \<^verbatim>\<open>MessageHeader\<close> with the given \<^verbatim>\<open>prev_id\<close>, \<^verbatim>\<open>type\<close>,
  \<^verbatim>\<open>nickname_length\<close> and \<^verbatim>\<open>magic_number\<close>, every other field zero.
\<close>

definition header_bytes :: "nat \<Rightarrow> nat \<Rightarrow> nat \<Rightarrow> nat \<Rightarrow> u8 list" where
  "header_bytes prev type nick magic =
     le32 0 @ le32 prev @ le32 0 @ le32 0 @ zeros 8 @ le32 type @ zeros 4 @ le32 nick
     @ le32 magic @ le32 0 @ le32 0 @ le32 0 @ le32 0"

text \<open>
  \<open>file1\<close>: one correspondent, \<^verbatim>\<open>bob\<close>, with two messages.
  Bytes 0-19: the file header, with the table's offset 20 at byte \<^verbatim>\<open>0x10\<close>.
  Bytes 20-39: the offset table for the IDs 0 to 4.
  Bytes 40-87: record 1. Bytes 88-521: record 2, the correspondent; its signature is at
  492, its name at 514, the head of its message chain (ID 4) at 128.
  Bytes 522-591: record 3, the older message. Bytes 592-659: record 4, the newer message,
  whose \<^verbatim>\<open>prev_id\<close> is 3.
\<close>

definition file1 :: "u8 list" where
  "file1 =
     zeros 16 @ le32 20
     @ le32 0 @ le32 40 @ le32 88 @ le32 522 @ le32 592
     @ anchor_bytes 2
     @ correspondent_bytes 0 0 4 mrahistory ''bob''
     @ header_bytes 0 0 4 56 @ utf16z ''bob'' @ utf16z ''hi''
     @ header_bytes 3 0 3 56 @ utf16z ''me'' @ utf16z ''yo''"

definition tbl1 :: offset_table where
  "tbl1 = offsets_table_at file1 20"

text \<open>
  \<open>file2\<close>: a chain of three records, 2, 3 and 4, of which only record 3 carries the
  signature. Bytes 20-39: the offset table. Bytes 40-87: record 1. Bytes 88-513: record 2.
  Bytes 514-947: record 3, signature at 918, name at 940. Bytes 948-1373: record 4.
\<close>

definition file2 :: "u8 list" where
  "file2 =
     zeros 16 @ le32 20
     @ le32 0 @ le32 40 @ le32 88 @ le32 514 @ le32 948
     @ anchor_bytes 2
     @ zeros 4 @ le32 0 @ le32 3 @ zeros 392 @ zeros 22
     @ correspondent_bytes 0 4 0 mrahistory ''bob''
     @ zeros 4 @ le32 0 @ le32 0 @ zeros 392 @ zeros 22"

definition tbl2 :: offset_table where
  "tbl2 = offsets_table_at file2 20"

text \<open>
  \<open>file3\<close>: two correspondents, \<^verbatim>\<open>zed\<close> (record 2) and then \<^verbatim>\<open>amy\<close> (record 3). The only
  message of \<^verbatim>\<open>zed\<close> (record 4) has the magic number \<^verbatim>\<open>0x37\<close>; the only message of
  \<^verbatim>\<open>amy\<close> (record 5) is well-formed.
  Bytes 20-43: the offset table. Bytes 44-91: record 1. Bytes 92-525: record 2. Bytes
  526-959: record 3. Bytes 960-1029: record 4. Bytes 1030-1099: record 5.
\<close>

definition file3 :: "u8 list" where
  "file3 =
     zeros 16 @ le32 20
     @ le32 0 @ le32 44 @ le32 92 @ le32 526 @ le32 960 @ le32 1030
     @ anchor_bytes 2
     @ correspondent_bytes 0 3 4 mrahistory ''zed''
     @ correspondent_bytes 0 0 5 mrahistory ''amy''
     @ header_bytes 0 0 4 55 @ utf16z ''zed'' @ utf16z ''hi''
     @ header_bytes 0 0 4 56 @ utf16z ''amy'' @ utf16z ''yo''"

definition tbl3 :: offset_table where
  "tbl3 = offsets_table_at file3 20"

text \<open>
  \<open>file4\<close>: a file of 96 bytes that ends twelve bytes into record 2. Bytes 20-35: the
  offset table; ID 3 has the offset 1000. Bytes 36-83: record 1. Bytes 84-95: the first
  twelve bytes of record 2, whose \<^verbatim>\<open>IdPair\<close> at 88 is \<open>(3, 0)\<close>.
\<close>

definition file4 :: "u8 list" where
  "file4 =
     zeros 16 @ le32 20
     @ le32 0 @ le32 36 @ le32 84 @ le32 1000
     @ anchor_bytes 2
     @ zeros 4 @ le32 3 @ le32 0"

definition tbl4 :: offset_table where
  "tbl4 = offsets_table_at file4 20"



text \<open>
  \<open>file6\<close>: one message of type \<^verbatim>\<open>0x11\<close> with an empty author. Bytes 0-7: the offset
  table. Bytes 8-63: the header, with \<^verbatim>\<open>nickname_length = 1\<close>. Bytes 64-65: the author, a
  lone terminator. Bytes 66-71: three code units, the first of them zero. Bytes 72-79:
  the text \<^verbatim>\<open>sms\<close>.
\<close>

definition file6 :: "u8 list" where
  "file6 =
     le32 0 @ le32 8
     @ header_bytes 0 17 1 56 @ [0, 0] @ [0, 0, 1, 0, 1, 0] @ utf16z ''sms''"

definition tbl6 :: offset_table where
  "tbl6 = offsets_table_at file6 0"

text \<open>
  \<open>file7\<close>: one correspondent, \<^verbatim>\<open>bob\<close>, whose message chain starts with ID 3, and ID 3 has
  the offset 5000 in a file of 518 bytes. Bytes 20-35: the offset table. Bytes 36-83:
  record 1. Bytes 84-517: record 2, with the head of the message chain at 124.
\<close>

definition file7 :: "u8 list" where
  "file7 =
     zeros 16 @ le32 20
     @ le32 0 @ le32 36 @ le32 84 @ le32 5000
     @ anchor_bytes 2
     @ correspondent_bytes 0 0 3 mrahistory ''bob''"

definition tbl7 :: offset_table where
  "tbl7 = offsets_table_at file7 20"

text \<open>
  \<open>file8\<close>: record 2 carries the signature, and the name after it is the single code unit
  \<^verbatim>\<open>0xDC00\<close>, a low surrogate with no high surrogate before it; its \<^verbatim>\<open>id2\<close> names record 3,
  the correspondent \<^verbatim>\<open>amy\<close>. Bytes 20-35: the offset table. Bytes 36-83: record 1. Bytes
  84-513: record 2, signature at 488, name at 510. Bytes 514-947: record 3.
\<close>

definition file8 :: "u8 list" where
  "file8 =
     zeros 16 @ le32 20
     @ le32 0 @ le32 36 @ le32 84 @ le32 514
     @ anchor_bytes 2
     @ zeros 4 @ le32 0 @ le32 3 @ zeros 28 @ le32 0 @ le32 0 @ zeros 356 @ mrahistory
     @ [0x00, 0xDC, 0, 0]
     @ correspondent_bytes 0 0 0 mrahistory ''amy''"

definition tbl8 :: offset_table where
  "tbl8 = offsets_table_at file8 20"

section \<open>Facts about the model\<close>

lemmas layout_defs =
  LAST_EMAIL_OFFSET_def MRAHISTORY_OFFSET_def TYPE_SMS_def IdPair_id1_def IdPair_id2_def
  MessageHeader_prev_id_def MessageHeader_type_def MessageHeader_nickname_length_def
  MessageHeader_magic_number_def sizeof_MessageHeader_def OFFSETS_TABLE_LOC_OFFSET_def

lemmas read_defs = read_bytes_def read_u32_def read_u16_def offsets_table_at_def

lemmas sample_defs =
  le32_def utf16z_def utf16le_ascii_def zeros_def anchor_bytes_def correspondent_bytes_def
  header_bytes_def mrahistory_def

lemmas string_defs = to_bytes_def utf8_1_def char_of_def bit_Suc_0_iff

subsection \<open>The signature test\<close>

lemma memmem_short: "length hay < length needle \<Longrightarrow> memmem hay needle = None"
  by (induction hay) auto

lemma memmem_same_length:
  "length hay = length needle \<Longrightarrow> (memmem hay needle \<noteq> None) = (hay = needle)"
  by (cases hay) (auto simp: memmem_short)

lemma length_read_bytes: "read_bytes file p n = Some bs \<Longrightarrow> length bs = n"
  by (auto simp: read_bytes_def split: if_splits)

lemma length_mrahistory: "length mrahistory = 22"
  by (simp add: mrahistory_def)

lemma mrahistory_utf16le: "utf16le_ascii ''mrahistory_'' = mrahistory"
  by (simp add: utf16le_ascii_def mrahistory_def)

lemma memmem_window:
  "read_bytes file p 22 = Some window \<Longrightarrow> (memmem window mrahistory \<noteq> None) = (window = mrahistory)"
  by (rule memmem_same_length) (simp add: length_read_bytes length_mrahistory)

subsection \<open>Unfolding the loops\<close>

lemma get_history_loop_0: "get_history_loop file tbl 0 emails = Some (Inr emails)"
  by (simp add: get_history_loop.simps)

lemma get_history_loop_fail:
  "c \<noteq> 0 \<Longrightarrow> get_history_body file tbl c = Inl e \<Longrightarrow> get_history_loop file tbl c emails = Some (Inl e)"
  by (subst get_history_loop.simps) simp

lemma get_history_loop_pushed:
  "c \<noteq> 0 \<Longrightarrow> get_history_body file tbl c = Inr (Some email, id2) \<Longrightarrow>
   get_history_loop file tbl c emails = get_history_loop file tbl id2 (emails @ [email])"
  by (subst get_history_loop.simps) simp

lemma get_history_loop_skipped:
  "c \<noteq> 0 \<Longrightarrow> get_history_body file tbl c = Inr (None, id2) \<Longrightarrow>
   get_history_loop file tbl c emails = get_history_loop file tbl id2 emails"
  by (subst get_history_loop.simps) simp

lemma get_messages_loop_0: "get_messages_loop file tbl 0 msgs = Some (Inr msgs)"
  by (simp add: get_messages_loop.simps)

lemma get_messages_loop_fail:
  "c \<noteq> 0 \<Longrightarrow> get_messages_body file tbl c = Inl e \<Longrightarrow> get_messages_loop file tbl c msgs = Some (Inl e)"
  by (subst get_messages_loop.simps) simp

lemma get_messages_loop_pushed:
  "c \<noteq> 0 \<Longrightarrow> get_messages_body file tbl c = Inr (msg, prev) \<Longrightarrow>
   get_messages_loop file tbl c msgs = get_messages_loop file tbl prev (msgs @ [msg])"
  by (subst get_messages_loop.simps) simp

subsection \<open>One pass of a loop, from what it reads\<close>

lemma get_history_body_unmatched:
  assumes "tbl (unat c) = Some off" "unat off < length file"
    and "read_bytes file (unat off + 4 + 0x190) 22 = Some window" "window \<noteq> mrahistory"
    and "read_u32 file (unat off + 4 + 4) = Some id2"
  shows "get_history_body file tbl c = Inr (None, id2)"
  using assms memmem_window [OF assms(3)]
  by (simp add: get_history_body_def layout_defs length_mrahistory)

lemma get_history_body_matched:
  assumes "tbl (unat c) = Some off" "unat off < length file"
    and "read_bytes file (unat off + 4 + 0x190) 22 = Some mrahistory"
    and "to_bytes file (unat off + 4 + 0x190 + 22) = Inr nm"
    and "read_u32 file (unat off + 4 + 4) = Some id2"
  shows "get_history_body file tbl c = Inr (Some \<lparr>name = nm, id_pair = unat off + 4 + 0x24\<rparr>, id2)"
  using assms memmem_window [OF assms(3)]
  by (simp add: get_history_body_def layout_defs length_mrahistory)

lemma get_history_body_matched_fail:
  assumes "tbl (unat c) = Some off" "unat off < length file"
    and "read_bytes file (unat off + 4 + 0x190) 22 = Some mrahistory"
    and "to_bytes file (unat off + 4 + 0x190 + 22) = Inl e"
  shows "get_history_body file tbl c = Inl e"
  using assms memmem_window [OF assms(3)]
  by (simp add: get_history_body_def layout_defs length_mrahistory)

lemma get_history_body_beyond:
  "tbl (unat c) = Some off \<Longrightarrow> length file \<le> unat off \<Longrightarrow> get_history_body file tbl c = Inl AssertionFailed"
  by (simp add: get_history_body_def)

lemma get_messages_body_magic:
  "tbl (unat c) = Some off \<Longrightarrow> read_u32 file (unat off + 36) = Some magic \<Longrightarrow> magic \<noteq> 0x38 \<Longrightarrow>
   get_messages_body file tbl c = Inl AssertionFailed"
  by (simp add: get_messages_body_def layout_defs)

lemma get_messages_body_ok:
  assumes "tbl (unat c) = Some off" "read_u32 file (unat off + 36) = Some 0x38"
    and "read_u32 file (unat off + 32) = Some nick" "text_start file (unat off) nick = Some tloc"
    and "to_bytes file (unat off + 56) = Inr a" "to_bytes file tloc = Inr t"
    and "read_u32 file (unat off + 4) = Some prev"
  shows "get_messages_body file tbl c = Inr (\<lparr>header = unat off, author = a, text_of = t\<rparr>, prev)"
  using assms by (simp add: get_messages_body_def layout_defs)

subsection \<open>Whole chains\<close>

lemma history_chain_loop:
  "history_chain file tbl c ids \<Longrightarrow>
   get_history_loop file tbl c emails = Some (Inr (emails @ concat (map (pushed_by file tbl) ids)))"
proof (induction ids arbitrary: c emails)
  case Nil
  then show ?case by (simp add: get_history_loop_0)
next
  case (Cons i ids)
  from Cons.prems have c: "c = i" "i \<noteq> 0" by simp_all
  from Cons.prems obtain pushed id2 where
    body: "get_history_body file tbl i = Inr (pushed, id2)" and rest: "history_chain file tbl id2 ids"
    by (auto split: sum.splits)
  show ?case
  proof (cases pushed)
    case None
    with body c rest Cons.IH [of id2 emails] show ?thesis
      by (simp add: get_history_loop_skipped pushed_by_def)
  next
    case (Some email)
    with body c rest Cons.IH [of id2 "emails @ [email]"] show ?thesis
      by (simp add: get_history_loop_pushed pushed_by_def)
  qed
qed



subsection \<open>The table entry of ID 0\<close>

lemma get_history_body_entry_0:
  "c \<noteq> 0 \<Longrightarrow> get_history_body file (tbl(0 := v)) c = get_history_body file tbl c"
  by (simp add: get_history_body_def unat_eq_0)

lemma get_messages_body_entry_0:
  "c \<noteq> 0 \<Longrightarrow> get_messages_body file (tbl(0 := v)) c = get_messages_body file tbl c"
  by (simp add: get_messages_body_def unat_eq_0)

lemma get_history_loop_transfer:
  assumes returns: "get_history_loop file tbl' c emails = Some r"
    and same: "\<And>i. i \<noteq> 0 \<Longrightarrow> get_history_body file tbl' i = get_history_body file tbl i"
  shows "get_history_loop file tbl c emails = Some r"
proof -
  have "file' = file \<and> t = tbl' \<longrightarrow> get_history_loop file tbl c emails = Some r"
    if "get_history_loop file' t c emails = Some r" for file' t
  proof (rule get_history_loop.raw_induct
      [where P = "\<lambda>f t c es r. f = file \<and> t = tbl' \<longrightarrow> get_history_loop file tbl c es = Some r",
       OF _ that])
    fix loop :: "u8 list \<Rightarrow> offset_table \<Rightarrow> u32 \<Rightarrow> Email list \<Rightarrow> (failure + Email list) option"
    fix f t c es r
    assume IH: "\<And>f t c es r. loop f t c es = Some r \<Longrightarrow>
                  f = file \<and> t = tbl' \<longrightarrow> get_history_loop file tbl c es = Some r"
      and unfolded:
        "(if c = 0 then Some (Inr es)
          else case get_history_body f t c of
                 Inl e \<Rightarrow> Some (Inl e)
               | Inr (pushed, id2) \<Rightarrow>
                   loop f t id2 (case pushed of None \<Rightarrow> es | Some email \<Rightarrow> es @ [email])) =
         Some r"
    show "f = file \<and> t = tbl' \<longrightarrow> get_history_loop file tbl c es = Some r"
    proof
      assume ft: "f = file \<and> t = tbl'"
      show "get_history_loop file tbl c es = Some r"
      proof (cases "c = 0")
        case True
        with unfolded show ?thesis by (simp add: get_history_loop_0)
      next
        case False
        show ?thesis
        proof (cases "get_history_body file tbl c")
          case (Inl e)
          with False unfolded ft same [OF False] show ?thesis
            by (simp add: get_history_loop_fail)
        next
          case (Inr p)
          obtain pushed id2 where p: "p = (pushed, id2)" by (cases p)
          with Inr False unfolded ft same [OF False]
          have "loop file tbl' id2 (case pushed of None \<Rightarrow> es | Some email \<Rightarrow> es @ [email]) = Some r"
            by simp
          from IH [OF this] Inr p False show ?thesis
            by (subst get_history_loop.simps) simp
        qed
      qed
    qed
  qed
  from this [OF returns] show ?thesis by simp
qed

lemma get_history_loop_entry_0:
  "get_history_loop file (tbl(0 := v)) c emails = get_history_loop file tbl c emails"
proof (cases "get_history_loop file (tbl(0 := v)) c emails")
  case None
  show ?thesis
  proof (cases "get_history_loop file tbl c emails")
    case (Some r)
    from get_history_loop_transfer [OF this, of "tbl(0 := v)"] None show ?thesis
      by (simp add: get_history_body_entry_0)
  qed (simp add: None)
next
  case (Some r)
  from get_history_loop_transfer [OF this, of tbl] show ?thesis
    by (simp add: get_history_body_entry_0 Some)
qed

lemma get_messages_loop_transfer:
  assumes returns: "get_messages_loop file tbl' c msgs = Some r"
    and same: "\<And>i. i \<noteq> 0 \<Longrightarrow> get_messages_body file tbl' i = get_messages_body file tbl i"
  shows "get_messages_loop file tbl c msgs = Some r"
proof -
  have "file' = file \<and> t = tbl' \<longrightarrow> get_messages_loop file tbl c msgs = Some r"
    if "get_messages_loop file' t c msgs = Some r" for file' t
  proof (rule get_messages_loop.raw_induct
      [where P = "\<lambda>f t c ms r. f = file \<and> t = tbl' \<longrightarrow> get_messages_loop file tbl c ms = Some r",
       OF _ that])
    fix loop :: "u8 list \<Rightarrow> offset_table \<Rightarrow> u32 \<Rightarrow> Message list \<Rightarrow> (failure + Message list) option"
    fix f t c ms r
    assume IH: "\<And>f t c ms r. loop f t c ms = Some r \<Longrightarrow>
                  f = file \<and> t = tbl' \<longrightarrow> get_messages_loop file tbl c ms = Some r"
      and unfolded:
        "(if c = 0 then Some (Inr ms)
          else case get_messages_body f t c of
                 Inl e \<Rightarrow> Some (Inl e)
               | Inr (msg, prev_id) \<Rightarrow> loop f t prev_id (ms @ [msg])) =
         Some r"
    show "f = file \<and> t = tbl' \<longrightarrow> get_messages_loop file tbl c ms = Some r"
    proof
      assume ft: "f = file \<and> t = tbl'"
      show "get_messages_loop file tbl c ms = Some r"
      proof (cases "c = 0")
        case True
        with unfolded show ?thesis by (simp add: get_messages_loop_0)
      next
        case False
        show ?thesis
        proof (cases "get_messages_body file tbl c")
          case (Inl e)
          with False unfolded ft same [OF False] show ?thesis
            by (simp add: get_messages_loop_fail)
        next
          case (Inr p)
          obtain msg prev where p: "p = (msg, prev)" by (cases p)
          with Inr False unfolded ft same [OF False]
          have "loop file tbl' prev (ms @ [msg]) = Some r"
            by simp
          from IH [OF this] Inr p False show ?thesis
            by (subst get_messages_loop.simps) simp
        qed
      qed
    qed
  qed
  from this [OF returns] show ?thesis by simp
qed

lemma get_messages_loop_entry_0:
  "get_messages_loop file (tbl(0 := v)) c msgs = get_messages_loop file tbl c msgs"
proof (cases "get_messages_loop file (tbl(0 := v)) c msgs")
  case None
  show ?thesis
  proof (cases "get_messages_loop file tbl c msgs")
    case (Some r)
    from get_messages_loop_transfer [OF this, of "tbl(0 := v)"] None show ?thesis
      by (simp add: get_messages_body_entry_0)
  qed (simp add: None)
next
  case (Some r)
  from get_messages_loop_transfer [OF this, of tbl] show ?thesis
    by (simp add: get_messages_body_entry_0 Some)
qed

subsection \<open>The loop of the program run\<close>

lemma main_loop_append_fail:
  "main_loop file tbl before = Some (Inr logged) \<Longrightarrow>
   get_messages file tbl email = Some (Inl e) \<Longrightarrow>
   main_loop file tbl (before @ email # rest) = Some (Inl e)"
  by (induction before arbitrary: logged) (auto split: option.splits sum.splits)

subsection \<open>Zero-terminated strings\<close>

lemma read_u16_head: "read_u16 (lo # hi # rest) 0 = Some (of_nat (unat lo + 256 * unat hi))"
  by (simp add: read_u16_def read_bytes_def)

lemma read_u16_tail: "read_u16 (lo # hi # rest) (2 + p) = read_u16 rest p"
  by (simp add: read_u16_def read_bytes_def)

lemma cstr16_units:
  "cstr16 bs = Some us \<Longrightarrow>
   0 \<notin> set us \<and> (\<forall>k<length us. read_u16 bs (2 * k) = Some (us ! k))
   \<and> read_u16 bs (2 * length us) = Some 0"
proof (induction bs arbitrary: us rule: cstr16.induct)
  case (1 lo hi rest)
  let ?u = "of_nat (unat lo + 256 * unat hi) :: u16"
  show ?case
  proof (cases "?u = 0")
    case True
    with "1.prems" have "us = []" by simp
    with True show ?thesis by (simp add: read_u16_head)
  next
    case False
    with "1.prems" obtain us' where us': "cstr16 rest = Some us'" "us = ?u # us'"
      by (auto simp: Let_def)
    from "1.IH" [OF refl False us'(1)] have IH:
      "0 \<notin> set us'" "\<forall>k<length us'. read_u16 rest (2 * k) = Some (us' ! k)"
      "read_u16 rest (2 * length us') = Some 0"
      by simp_all
    have "read_u16 (lo # hi # rest) (2 * k) = Some (us ! k)" if "k < length us" for k
    proof (cases k)
      case 0
      with us' show ?thesis by (simp add: read_u16_head)
    next
      case (Suc j)
      with that us' IH(2) have "read_u16 rest (2 * j) = Some (us' ! j)" by simp
      with Suc us' read_u16_tail [of lo hi rest "2 * j"] show ?thesis by simp
    qed
    moreover have "read_u16 (lo # hi # rest) (2 * length us) = Some 0"
      using us' IH(3) read_u16_tail [of lo hi rest "2 * length us'"] by simp
    moreover have "0 \<notin> set us" using False us' IH(1) by auto
    ultimately show ?thesis by simp
  qed
qed simp_all

lemma read_u16_drop: "read_u16 (drop p file) q = Some v \<Longrightarrow> read_u16 file (p + q) = Some v"
  by (auto simp: read_u16_def read_bytes_def add.commute split: if_splits)

lemma to_bytes_units:
  assumes "to_bytes file p = Inr s"
  shows "\<exists>us. utf16_to_utf8 (map unat us) = Some s \<and> 0 \<notin> set us
           \<and> (\<forall>k<length us. read_u16 file (p + 2 * k) = Some (us ! k))
           \<and> read_u16 file (p + 2 * length us) = Some 0"
proof -
  from assms obtain us where us: "cstr16 (drop p file) = Some us"
    "utf16_to_utf8 (map unat us) = Some s"
    by (auto simp: to_bytes_def split: option.splits)
  from cstr16_units [OF us(1)] us(2) show ?thesis
    by (auto intro!: exI [of _ us] read_u16_drop)
qed

lemma text_start_eq:
  assumes "read_u16 file (hdr + 56 + 2 * unat nickname_length) = Some first_unit"
    and "first_unit = 0 \<longrightarrow> read_u32 file (hdr + 24) = Some ty"
  shows "text_start file hdr nickname_length =
         Some (hdr + 56 + 2 * unat nickname_length + (if first_unit = 0 \<and> ty = 0x11 then 6 else 0))"
  using assms by (cases "first_unit = 0") (simp_all add: text_start_def layout_defs Let_def)

subsection \<open>A cycle that pushes nothing\<close>


subsection \<open>The signature test in words\<close>

lemma signature_equal_iff:
  "signature_equal file record_offset =
   (read_bytes file ((record_offset + 4) + 0x190) 22 = Some mrahistory)"
  by (simp add: signature_equal_def mrahistory_utf16le)

lemma memmem_signature_equal:
  "read_bytes file (off + 4 + 0x190) 22 = Some window \<Longrightarrow>
   (memmem window mrahistory \<noteq> None) = signature_equal file off"
  using memmem_window [of "file" "off + 4 + 0x190" window]
  by (simp add: signature_equal_iff)

section \<open>The sample files, evaluated\<close>


lemma file1_messages_4:
  "get_messages_body file1 tbl1 4 = Inr (\<lparr>header = 592, author = ''me'', text_of = ''yo''\<rparr>, 3)"
  by (simp add: get_messages_body_def text_start_def tbl1_def file1_def read_defs layout_defs sample_defs string_defs)

lemma file1_messages_3:
  "get_messages_body file1 tbl1 3 = Inr (\<lparr>header = 522, author = ''bob'', text_of = ''hi''\<rparr>, 0)"
  by (simp add: get_messages_body_def text_start_def tbl1_def file1_def read_defs layout_defs sample_defs string_defs)

lemma file2_history_2: "get_history_body file2 tbl2 2 = Inr (None, 3)"
  by (simp add: get_history_body_def tbl2_def file2_def read_defs layout_defs sample_defs string_defs)

lemma file2_history_3:
  "get_history_body file2 tbl2 3 = Inr (Some \<lparr>name = ''bob'', id_pair = 554\<rparr>, 4)"
  by (simp add: get_history_body_def tbl2_def file2_def read_defs layout_defs sample_defs string_defs)

lemma file2_history_4: "get_history_body file2 tbl2 4 = Inr (None, 0)"
  by (simp add: get_history_body_def tbl2_def file2_def read_defs layout_defs sample_defs string_defs)

lemma file3_history_2:
  "get_history_body file3 tbl3 2 = Inr (Some \<lparr>name = ''zed'', id_pair = 132\<rparr>, 3)"
  by (simp add: get_history_body_def tbl3_def file3_def read_defs layout_defs sample_defs string_defs)

lemma file3_history_3:
  "get_history_body file3 tbl3 3 = Inr (Some \<lparr>name = ''amy'', id_pair = 566\<rparr>, 0)"
  by (simp add: get_history_body_def tbl3_def file3_def read_defs layout_defs sample_defs string_defs)

lemma file3_messages_4: "get_messages_body file3 tbl3 4 = Inl AssertionFailed"
  by (simp add: get_messages_body_def text_start_def tbl3_def file3_def read_defs layout_defs sample_defs string_defs)

lemma file3_messages_5:
  "get_messages_body file3 tbl3 5 = Inr (\<lparr>header = 1030, author = ''amy'', text_of = ''yo''\<rparr>, 0)"
  by (simp add: get_messages_body_def text_start_def tbl3_def file3_def read_defs layout_defs sample_defs string_defs)

lemma file4_history_2: "get_history_body file4 tbl4 2 = Inl OutOfRangeRead"
  by (simp add: get_history_body_def tbl4_def file4_def read_defs layout_defs sample_defs string_defs)

lemma file4_history_3: "get_history_body file4 tbl4 3 = Inl AssertionFailed"
  by (simp add: get_history_body_def tbl4_def file4_def read_defs layout_defs sample_defs string_defs)

lemma file4_messages_3: "get_messages_body file4 tbl4 3 = Inl OutOfRangeRead"
  by (simp add: get_messages_body_def text_start_def tbl4_def file4_def read_defs layout_defs sample_defs string_defs)

lemma file7_history_2:
  "get_history_body file7 tbl7 2 = Inr (Some \<lparr>name = ''bob'', id_pair = 124\<rparr>, 0)"
  by (simp add: get_history_body_def tbl7_def file7_def read_defs layout_defs sample_defs string_defs)

lemma file7_messages_3: "get_messages_body file7 tbl7 3 = Inl OutOfRangeRead"
  by (simp add: get_messages_body_def text_start_def tbl7_def file7_def read_defs layout_defs sample_defs string_defs)


lemma file6_messages_1:
  "get_messages_body file6 tbl6 1 = Inr (\<lparr>header = 8, author = '''', text_of = ''sms''\<rparr>, 0)"
  by (simp add: get_messages_body_def text_start_def tbl6_def file6_def read_defs layout_defs sample_defs string_defs)




lemma file1_reads:
  "read_u32 file1 16 = Some 20" "tbl1 1 = Some 40" "read_u32 file1 84 = Some 2"
  "tbl1 2 = Some 88" "length file1 = 660" "read_u32 file1 96 = Some 0"
  "read_u32 file1 128 = Some 4"
  "tbl1 4 = Some 592" "read_u32 file1 628 = Some 0x38" "read_u32 file1 624 = Some 3"
  "read_u32 file1 596 = Some 3"
  "tbl1 3 = Some 522" "read_u32 file1 558 = Some 0x38" "read_u32 file1 554 = Some 4"
  "read_u32 file1 526 = Some 0"
  by (simp_all add: tbl1_def file1_def read_defs sample_defs)

lemma file1_strings:
  "to_bytes file1 514 = Inr ''bob''"
  "to_bytes file1 648 = Inr ''me''" "to_bytes file1 582 = Inr ''b''"
  "to_bytes file1 654 = Inr ''yo''"
  "to_bytes file1 578 = Inr ''bob''" "to_bytes file1 586 = Inr ''hi''"
  "text_start file1 592 3 = Some 654" "text_start file1 522 4 = Some 586"
  by (simp_all add: text_start_def file1_def read_defs layout_defs sample_defs string_defs)

lemma file2_reads:
  "tbl2 1 = Some 40" "read_u32 file2 84 = Some 2" "length file2 = 1374"
  "tbl2 2 = Some 88" "read_bytes file2 492 22 = Some (replicate 22 0)" "read_u32 file2 96 = Some 3"
  "tbl2 3 = Some 514" "read_bytes file2 918 22 = Some mrahistory" "read_u32 file2 522 = Some 4"
  "to_bytes file2 940 = Inr ''bob''"
  "tbl2 4 = Some 948" "read_bytes file2 1352 22 = Some (replicate 22 0)" "read_u32 file2 956 = Some 0"
  by (simp_all add: tbl2_def file2_def read_defs sample_defs string_defs)

lemma file3_reads:
  "read_u32 file3 16 = Some 20" "tbl3 1 = Some 44" "read_u32 file3 88 = Some 2"
  "read_u32 file3 132 = Some 4" "read_u32 file3 566 = Some 5"
  "tbl3 4 = Some 960" "read_u32 file3 996 = Some 55"
  by (simp_all add: tbl3_def file3_def read_defs sample_defs)

lemma file3_get_history:
  "get_history file3 tbl3 =
   Some (Inr [\<lparr>name = ''zed'', id_pair = 132\<rparr>, \<lparr>name = ''amy'', id_pair = 566\<rparr>])"
  using file3_reads
  by (simp add: get_history_def LAST_EMAIL_OFFSET_def get_history_loop_pushed
      get_history_loop_0 file3_history_2 file3_history_3)

lemma file3_get_messages_zed:
  "get_messages file3 tbl3 \<lparr>name = ''zed'', id_pair = 132\<rparr> = Some (Inl AssertionFailed)"
  using file3_reads
  by (simp add: get_messages_def IdPair_id1_def get_messages_loop_fail file3_messages_4)

lemma file3_get_messages_amy:
  "get_messages file3 tbl3 \<lparr>name = ''amy'', id_pair = 566\<rparr> =
   Some (Inr [\<lparr>header = 1030, author = ''amy'', text_of = ''yo''\<rparr>])"
  using file3_reads
  by (simp add: get_messages_def IdPair_id1_def get_messages_loop_pushed get_messages_loop_0
      file3_messages_5)

lemma file6_reads:
  "tbl6 1 = Some 8" "read_u32 file6 44 = Some 0x38" "read_u32 file6 40 = Some 1"
  "read_u16 file6 66 = Some 0" "read_u32 file6 32 = Some 0x11" "read_u32 file6 12 = Some 0"
  "to_bytes file6 64 = Inr ''''" "to_bytes file6 72 = Inr ''sms''"
  by (simp_all add: tbl6_def file6_def read_defs sample_defs string_defs)

lemma file8_reads:
  "tbl8 1 = Some 36" "read_u32 file8 80 = Some 2" "tbl8 2 = Some 84"
  "read_bytes file8 488 22 = Some mrahistory" "read_u32 file8 92 = Some 3"
  by (simp_all add: tbl8_def file8_def read_defs sample_defs)

lemma file8_history_2: "get_history_body file8 tbl8 2 = Inl RangeError"
  by (simp add: get_history_body_def tbl8_def file8_def read_defs layout_defs sample_defs string_defs)

lemma file8_history_3:
  "get_history_body file8 tbl8 3 = Inr (Some \<lparr>name = ''amy'', id_pair = 554\<rparr>, 0)"
  by (simp add: get_history_body_def tbl8_def file8_def read_defs layout_defs sample_defs string_defs)

section \<open>The claims\<close>



text \<open>
  C2, as the code has it. For a record the correspondent loop visits (its offset below the file size, its 22
  signature bytes and its \<^verbatim>\<open>id2\<close> inside the file): when the 22 bytes at
  \<open>(record_offset + 4) + 0x190\<close> differ from the UTF-16LE encoding of \<^verbatim>\<open>mrahistory_\<close>, nothing
  is pushed and the loop goes on with \<^verbatim>\<open>id2\<close>, without a failure; when they are equal, the
  name is decoded and, if that succeeds, one \<^verbatim>\<open>Email\<close> is pushed and the loop goes on with
  the same \<^verbatim>\<open>id2\<close>; if it fails, the scan ends with that failure. In the sample chain of three records, of which only the middle one
  carries the signature, all three are passed through and one correspondent comes out.
\<close>

theorem C2_signature_gate:
  assumes "last_email \<noteq> 0"
    and "offset_table (unat last_email) = Some record_offset"
    and "unat record_offset < length file"
    and "read_bytes file ((unat record_offset + 4) + 0x190) 22 = Some window"
    and "read_u32 file ((unat record_offset + 4) + 4) = Some id2"
  shows "(window \<noteq> utf16le_ascii ''mrahistory_'' \<longrightarrow>
            get_history_loop file offset_table last_email emails =
            get_history_loop file offset_table id2 emails)
         \<and> (window = utf16le_ascii ''mrahistory_'' \<longrightarrow>
            (case to_bytes file ((unat record_offset + 4) + 0x190 + 22) of
               Inl e \<Rightarrow> get_history_loop file offset_table last_email emails = Some (Inl e)
             | Inr nm \<Rightarrow>
                 get_history_loop file offset_table last_email emails =
                 get_history_loop file offset_table id2
                   (emails @ [\<lparr>name = nm, id_pair = (unat record_offset + 4) + 0x24\<rparr>])))"
proof (intro conjI impI)
  assume "window \<noteq> utf16le_ascii ''mrahistory_''"
  then have "window \<noteq> mrahistory" by (simp add: mrahistory_utf16le)
  with assms have "get_history_body file offset_table last_email = Inr (None, id2)"
    by (intro get_history_body_unmatched) simp_all
  with assms(1) show "get_history_loop file offset_table last_email emails =
      get_history_loop file offset_table id2 emails"
    by (simp add: get_history_loop_skipped)
next
  assume "window = utf16le_ascii ''mrahistory_''"
  then have window: "window = mrahistory" by (simp add: mrahistory_utf16le)
  show "case to_bytes file ((unat record_offset + 4) + 0x190 + 22) of
          Inl e \<Rightarrow> get_history_loop file offset_table last_email emails = Some (Inl e)
        | Inr nm \<Rightarrow>
            get_history_loop file offset_table last_email emails =
            get_history_loop file offset_table id2
              (emails @ [\<lparr>name = nm, id_pair = (unat record_offset + 4) + 0x24\<rparr>])"
  proof (cases "to_bytes file ((unat record_offset + 4) + 0x190 + 22)")
    case (Inl e)
    with assms window have "get_history_body file offset_table last_email = Inl e"
      by (intro get_history_body_matched_fail) simp_all
    with assms(1) Inl show ?thesis by (simp add: get_history_loop_fail)
  next
    case (Inr nm)
    with assms window have "get_history_body file offset_table last_email =
        Inr (Some \<lparr>name = nm, id_pair = unat record_offset + 4 + 0x24\<rparr>, id2)"
      by (intro get_history_body_matched) simp_all
    with assms(1) Inr show ?thesis by (simp add: get_history_loop_pushed)
  qed
qed

theorem C2_signature_gate_witness:
  "tbl2 1 = Some 40 \<and> read_u32 file2 (40 + 0x2C) = Some 2
   \<and> tbl2 2 = Some 88 \<and> read_bytes file2 ((88 + 4) + 0x190) 22 = Some (replicate 22 0)
   \<and> read_u32 file2 ((88 + 4) + 4) = Some 3
   \<and> tbl2 3 = Some 514
   \<and> read_bytes file2 ((514 + 4) + 0x190) 22 = Some (utf16le_ascii ''mrahistory_'')
   \<and> read_u32 file2 ((514 + 4) + 4) = Some 4
   \<and> tbl2 4 = Some 948 \<and> read_bytes file2 ((948 + 4) + 0x190) 22 = Some (replicate 22 0)
   \<and> read_u32 file2 ((948 + 4) + 4) = Some 0
   \<and> get_history file2 tbl2 = Some (Inr [\<lparr>name = ''bob'', id_pair = 554\<rparr>])"
proof -
  note r = file2_reads
  have not_marker: "replicate 22 (0 :: u8) \<noteq> utf16le_ascii ''mrahistory_''"
  proof
    assume "replicate 22 (0 :: u8) = utf16le_ascii ''mrahistory_''"
    then have "hd (replicate 22 (0 :: u8)) = hd (utf16le_ascii ''mrahistory_'')" by simp
    then show False by (simp add: utf16le_ascii_def)
  qed
  have "get_history_loop file2 tbl2 2 [] = get_history_loop file2 tbl2 3 []"
    using C2_signature_gate [of 2 tbl2 88 file2 "replicate 22 0" 3 "[]"] r not_marker
    by simp
  also have "\<dots> = get_history_loop file2 tbl2 4 [\<lparr>name = ''bob'', id_pair = 554\<rparr>]"
    using C2_signature_gate [of 3 tbl2 514 file2 mrahistory 4 "[]"] r
    by (simp add: mrahistory_utf16le)
  also have "\<dots> = get_history_loop file2 tbl2 0 [\<lparr>name = ''bob'', id_pair = 554\<rparr>]"
    using C2_signature_gate [of 4 tbl2 948 file2 "replicate 22 0" 0
        "[\<lparr>name = ''bob'', id_pair = 554\<rparr>]"] r not_marker
    by simp
  finally have "get_history_loop file2 tbl2 2 [] = Some (Inr [\<lparr>name = ''bob'', id_pair = 554\<rparr>])"
    by (simp add: get_history_loop_0)
  with r show ?thesis
    by (simp add: get_history_def LAST_EMAIL_OFFSET_def mrahistory_utf16le)
qed

text \<open>
  C2, as stated, has a record emitted whenever its 22 bytes are the marker, and the
  traversal advance to \<^verbatim>\<open>id2\<close> in every case. In \<open>file8\<close> record 2 carries the marker and
  its name is a lone low surrogate: \<^verbatim>\<open>to_bytes\<close> throws, so \<^verbatim>\<open>get_history\<close> ends there with
  no \<^verbatim>\<open>Email\<close> for record 2 and without going on to record 3, which its \<^verbatim>\<open>id2\<close> names and
  which would be emitted.
\<close>

theorem C2_counterexample:
  "tbl8 2 = Some 84 \<and> signature_equal file8 84 \<and> read_u32 file8 ((84 + 4) + 4) = Some 3
   \<and> get_history_body file8 tbl8 3 = Inr (Some \<lparr>name = ''amy'', id_pair = 554\<rparr>, 0)
   \<and> get_history file8 tbl8 = Some (Inl RangeError)"
proof -
  have "get_history file8 tbl8 = Some (Inl RangeError)"
    using file8_reads
    by (simp add: get_history_def LAST_EMAIL_OFFSET_def get_history_loop_fail file8_history_2)
  with file8_reads file8_history_3 show ?thesis
    by (simp add: signature_equal_iff)
qed

text \<open>
  C3, as the code has it. When the scan of a correspondent's message chain arrives at a
  record whose \<^verbatim>\<open>magic_number\<close> is not \<^verbatim>\<open>0x38\<close>, the program's \<^verbatim>\<open>assert\<close> ends it: no
  author or text is decoded for the record, and no message list is returned. The
  \<^verbatim>\<open>assert\<close> exits the process, so the \<^verbatim>\<open>for\<close> loop of \<^verbatim>\<open>main\<close> ends with it, whatever
  correspondents are still to come.
\<close>

theorem C3_bad_magic_ends_the_run:
  assumes "read_u32 file (id_pair email) = Some start"
    and "get_messages_loop file offset_table start [] =
         get_messages_loop file offset_table msg_id msgs"
    and "msg_id \<noteq> 0"
    and "offset_table (unat msg_id) = Some off"
    and "read_u32 file (unat off + 36) = Some magic_number"
    and "magic_number \<noteq> 0x38"
    and "main_loop file offset_table before = Some (Inr logged)"
  shows "get_messages file offset_table email = Some (Inl AssertionFailed)
         \<and> main_loop file offset_table (before @ email # rest) = Some (Inl AssertionFailed)"
proof -
  from assms(3-6) have "get_messages_loop file offset_table msg_id msgs = Some (Inl AssertionFailed)"
    by (simp add: get_messages_loop_fail get_messages_body_magic)
  with assms(1,2) have "get_messages file offset_table email = Some (Inl AssertionFailed)"
    by (simp add: get_messages_def IdPair_id1_def)
  with main_loop_append_fail [OF assms(7) this] show ?thesis by simp
qed

theorem C3_bad_magic_ends_the_run_witness:
  "read_u32 file3 (id_pair \<lparr>name = ''zed'', id_pair = 132\<rparr>) = Some 4
   \<and> tbl3 (unat (4 :: u32)) = Some 960
   \<and> read_u32 file3 (unat (960 :: u32) + 36) = Some 55
   \<and> get_messages file3 tbl3 \<lparr>name = ''zed'', id_pair = 132\<rparr> = Some (Inl AssertionFailed)
   \<and> main_loop file3 tbl3 ([] @ \<lparr>name = ''zed'', id_pair = 132\<rparr> # [\<lparr>name = ''amy'', id_pair = 566\<rparr>])
       = Some (Inl AssertionFailed)"
proof -
  have a: "read_u32 file3 (id_pair \<lparr>name = ''zed'', id_pair = 132\<rparr>) = Some 4"
    by (simp add: file3_reads)
  have b: "get_messages_loop file3 tbl3 4 [] = get_messages_loop file3 tbl3 4 []" ..
  have c: "(4 :: u32) \<noteq> 0" by simp
  have d: "tbl3 (unat (4 :: u32)) = Some 960" by (simp add: file3_reads)
  have e: "read_u32 file3 (unat (960 :: u32) + 36) = Some 55" by (simp add: file3_reads)
  have f: "(55 :: u32) \<noteq> 0x38" by simp
  have g: "main_loop file3 tbl3 [] = Some (Inr [])" by simp
  from C3_bad_magic_ends_the_run [OF a b c d e f g, of "[\<lparr>name = ''amy'', id_pair = 566\<rparr>]"] a d e
  show ?thesis by simp
qed

text \<open>
  C3, as stated, has the failure leave the runs for the other correspondents alone. In
  \<open>file3\<close> the message of \<^verbatim>\<open>zed\<close> has the magic number \<^verbatim>\<open>0x37\<close> and the chain of \<^verbatim>\<open>amy\<close> is
  well-formed, yet the run ends with the assertion failure and logs nothing for \<^verbatim>\<open>amy\<close>.
\<close>

theorem C3_counterexample:
  "get_messages file3 tbl3 \<lparr>name = ''zed'', id_pair = 132\<rparr> = Some (Inl AssertionFailed)
   \<and> get_messages file3 tbl3 \<lparr>name = ''amy'', id_pair = 566\<rparr> =
       Some (Inr [\<lparr>header = 1030, author = ''amy'', text_of = ''yo''\<rparr>])
   \<and> main_run file3 = Some (Inl AssertionFailed)"
proof -
  have "main_run file3 = Some (Inl AssertionFailed)"
    using file3_reads(1) file3_get_history file3_get_messages_zed
    by (simp add: main_run_def OFFSETS_TABLE_LOC_OFFSET_def tbl3_def [symmetric])
  with file3_get_messages_zed file3_get_messages_amy show ?thesis by simp
qed

text \<open>
  C4, as the code has it. In the correspondent loop an offset taken from the table that
  is not below the file size ends the scan with the program's \<^verbatim>\<open>assert\<close>, before anything
  is read at that offset.
\<close>

theorem C4_history_offset_checked:
  assumes "last_email \<noteq> 0"
    and "offset_table (unat last_email) = Some current_offset"
    and "length file \<le> unat current_offset"
  shows "get_history_loop file offset_table last_email emails = Some (Inl AssertionFailed)"
  using assms by (simp add: get_history_loop_fail get_history_body_beyond)

theorem C4_history_offset_checked_witness:
  "(3 :: u32) \<noteq> 0 \<and> tbl4 (unat (3 :: u32)) = Some 1000 \<and> length file4 \<le> unat (1000 :: u32)
   \<and> get_history_loop file4 tbl4 3 [] = Some (Inl AssertionFailed)"
proof -
  have a: "(3 :: u32) \<noteq> 0" by simp
  have b: "tbl4 (unat (3 :: u32)) = Some 1000"
    by (simp add: tbl4_def file4_def read_defs sample_defs)
  have c: "length file4 \<le> unat (1000 :: u32)"
    by (simp add: file4_def sample_defs)
  from C4_history_offset_checked [of 3 tbl4 1000 file4 "[]", OF a b c] a b c show ?thesis by simp
qed

text \<open>
  C4, as stated, has every read that would leave the file answered by an error. In
  \<open>file4\<close>, 96 bytes long, record 2 starts at offset 84, below the file size, and its
  signature bytes would lie at 488: \<^verbatim>\<open>get_history\<close> reads beyond the file. In \<open>file7\<close>,
  518 bytes long, the message chain of \<^verbatim>\<open>bob\<close> starts with ID 3, whose offset is 5000:
  \<^verbatim>\<open>get_messages\<close>, which never looks at \<^verbatim>\<open>file_size\<close>, reads \<^verbatim>\<open>magic_number\<close> at 5036.
\<close>

theorem C4_counterexample:
  "length file4 = 96 \<and> tbl4 2 = Some 84
   \<and> get_history file4 tbl4 = Some (Inl OutOfRangeRead)
   \<and> length file7 = 518 \<and> tbl7 3 = Some 5000
   \<and> get_history file7 tbl7 = Some (Inr [\<lparr>name = ''bob'', id_pair = 124\<rparr>])
   \<and> get_messages file7 tbl7 \<lparr>name = ''bob'', id_pair = 124\<rparr> = Some (Inl OutOfRangeRead)
   \<and> main_run file7 = Some (Inl OutOfRangeRead)"
proof -
  have reads4: "length file4 = 96" "tbl4 1 = Some 36" "read_u32 file4 80 = Some 2"
    "tbl4 2 = Some 84"
    by (simp_all add: tbl4_def file4_def read_defs sample_defs)
  have reads7: "length file7 = 518" "read_u32 file7 16 = Some 20" "tbl7 1 = Some 36"
    "read_u32 file7 80 = Some 2" "read_u32 file7 124 = Some 3" "tbl7 3 = Some 5000"
    by (simp_all add: tbl7_def file7_def read_defs sample_defs)
  have history4: "get_history file4 tbl4 = Some (Inl OutOfRangeRead)"
    using reads4
    by (simp add: get_history_def LAST_EMAIL_OFFSET_def get_history_loop_fail file4_history_2)
  have history7: "get_history file7 tbl7 = Some (Inr [\<lparr>name = ''bob'', id_pair = 124\<rparr>])"
    using reads7
    by (simp add: get_history_def LAST_EMAIL_OFFSET_def get_history_loop_pushed
        get_history_loop_0 file7_history_2)
  have messages7:
    "get_messages file7 tbl7 \<lparr>name = ''bob'', id_pair = 124\<rparr> = Some (Inl OutOfRangeRead)"
    using reads7
    by (simp add: get_messages_def IdPair_id1_def get_messages_loop_fail file7_messages_3)
  have "main_run file7 = Some (Inl OutOfRangeRead)"
    using reads7(2) history7 messages7
    by (simp add: main_run_def OFFSETS_TABLE_LOC_OFFSET_def tbl7_def [symmetric])
  with reads4 reads7 history4 history7 messages7 show ?thesis by simp
qed




text \<open>
  C6, as the code has it. \<^verbatim>\<open>sizeof(MessageHeader)\<close> is 56, not 60: for a message record
  with the magic number \<^verbatim>\<open>0x38\<close>, the author is the zero-terminated UTF-16 string that starts
  56 bytes after the start of the header; it ends at the first zero code unit, whatever
  \<^verbatim>\<open>nickname_length\<close> says. The text starts \<open>2 * nickname_length\<close> bytes after the author
  start and, exactly when the code unit there is zero and \<^verbatim>\<open>type\<close> is \<^verbatim>\<open>0x11\<close>, 6 bytes
  further on. The loop pushes this author and text and goes on with \<^verbatim>\<open>prev_id\<close>.
\<close>

theorem C6_author_and_text_positions:
  assumes "msg_id \<noteq> 0"
    and "offset_table (unat msg_id) = Some off"
    and "read_u32 file (unat off + 36) = Some 0x38"
    and "read_u32 file (unat off + 32) = Some nickname_length"
    and "read_u16 file (unat off + 56 + 2 * unat nickname_length) = Some first_unit"
    and "first_unit = 0 \<longrightarrow> read_u32 file (unat off + 24) = Some ty"
    and "to_bytes file (unat off + 56) = Inr a"
    and "to_bytes file (unat off + 56 + 2 * unat nickname_length
                         + (if first_unit = 0 \<and> ty = 0x11 then 6 else 0)) = Inr t"
    and "read_u32 file (unat off + 4) = Some prev_id"
  shows "get_messages_loop file offset_table msg_id msgs =
         get_messages_loop file offset_table prev_id
           (msgs @ [\<lparr>header = unat off, author = a, text_of = t\<rparr>])
         \<and> (\<exists>us. utf16_to_utf8 (map unat us) = Some a \<and> 0 \<notin> set us
               \<and> (\<forall>k<length us. read_u16 file (unat off + 56 + 2 * k) = Some (us ! k))
               \<and> read_u16 file (unat off + 56 + 2 * length us) = Some 0)"
proof -
  from text_start_eq [OF assms(5,6)] assms(2-4,7-9)
  have "get_messages_body file offset_table msg_id =
        Inr (\<lparr>header = unat off, author = a, text_of = t\<rparr>, prev_id)"
    by (intro get_messages_body_ok) simp_all
  with assms(1) to_bytes_units [OF assms(7)] show ?thesis
    by (simp add: get_messages_loop_pushed)
qed

theorem C6_author_and_text_positions_witness:
  "tbl6 (unat (1 :: u32)) = Some 8 \<and> read_u32 file6 (unat (8 :: u32) + 36) = Some 0x38
   \<and> read_u32 file6 (unat (8 :: u32) + 32) = Some 1
   \<and> read_u16 file6 (unat (8 :: u32) + 56 + 2 * unat (1 :: u32)) = Some 0
   \<and> read_u32 file6 (unat (8 :: u32) + 24) = Some 0x11
   \<and> to_bytes file6 (unat (8 :: u32) + 56 + 2 * unat (1 :: u32) + 6) = Inr ''sms''
   \<and> get_messages_loop file6 tbl6 1 [] =
       Some (Inr [\<lparr>header = 8, author = '''', text_of = ''sms''\<rparr>])"
proof -
  have a: "(1 :: u32) \<noteq> 0" by simp
  have b: "tbl6 (unat (1 :: u32)) = Some 8" using file6_reads(1) by simp
  have c: "read_u32 file6 (unat (8 :: u32) + 36) = Some 0x38" by (simp add: file6_reads)
  have d: "read_u32 file6 (unat (8 :: u32) + 32) = Some 1" by (simp add: file6_reads)
  have e: "read_u16 file6 (unat (8 :: u32) + 56 + 2 * unat (1 :: u32)) = Some 0"
    by (simp add: file6_reads)
  have f: "(0 :: u16) = 0 \<longrightarrow> read_u32 file6 (unat (8 :: u32) + 24) = Some 0x11"
    by (simp add: file6_reads)
  have g: "to_bytes file6 (unat (8 :: u32) + 56) = Inr ''''" by (simp add: file6_reads)
  have h: "to_bytes file6 (unat (8 :: u32) + 56 + 2 * unat (1 :: u32)
             + (if (0 :: u16) = 0 \<and> (0x11 :: u32) = 0x11 then 6 else 0)) = Inr ''sms''"
    by (simp add: file6_reads)
  have i: "read_u32 file6 (unat (8 :: u32) + 4) = Some 0" by (simp add: file6_reads)
  from C6_author_and_text_positions
    [of 1 tbl6 8 file6 1 0 "0x11" "''''" "''sms''" 0 "[]", OF a b c d e f g h i] b c d e f h
  show ?thesis by (simp add: get_messages_loop_0)
qed

text \<open>
  C6, as stated, has the author start after a header of 60 bytes. In \<open>file1\<close> the older
  message of \<^verbatim>\<open>bob\<close>, at offset 522, has the author \<^verbatim>\<open>bob\<close>, the string 56 bytes after
  522; the string 60 bytes after 522 is \<^verbatim>\<open>b\<close>.
\<close>

theorem C6_counterexample:
  "get_messages file1 tbl1 \<lparr>name = ''bob'', id_pair = 128\<rparr> =
     Some (Inr [\<lparr>header = 592, author = ''me'', text_of = ''yo''\<rparr>,
                \<lparr>header = 522, author = ''bob'', text_of = ''hi''\<rparr>])
   \<and> to_bytes file1 (522 + 56) = Inr ''bob''
   \<and> to_bytes file1 (522 + 60) = Inr ''b''"
  using file1_reads file1_strings
  by (simp add: get_messages_def IdPair_id1_def file1_messages_4 file1_messages_3
      get_messages_loop_pushed get_messages_loop_0)

text \<open>
  C7. \<^verbatim>\<open>get_history\<close> starts its cursor from the \<^verbatim>\<open>uint32_t\<close> at the offset of record 1 plus
  \<^verbatim>\<open>0x2C\<close>, and what it returns is what the passes for the records of the chain push,
  in the order of the chain: nothing is sorted. In \<open>file3\<close> the chain is \<^verbatim>\<open>zed\<close>, then
  \<^verbatim>\<open>amy\<close>, and so is the result.
\<close>

theorem C7_bootstrap_and_chain_order:
  assumes "offset_table 1 = Some anchor"
    and "read_u32 file (unat anchor + 0x2C) = Some cursor"
    and "history_chain file offset_table cursor ids"
  shows "get_history file offset_table =
         Some (Inr (concat (map (pushed_by file offset_table) ids)))"
  using assms history_chain_loop [of "file" offset_table cursor ids "[]"]
  by (simp add: get_history_def LAST_EMAIL_OFFSET_def)

theorem C7_bootstrap_and_chain_order_witness:
  "tbl3 1 = Some 44 \<and> read_u32 file3 (unat (44 :: u32) + 0x2C) = Some 2
   \<and> history_chain file3 tbl3 2 [2, 3]
   \<and> get_history file3 tbl3 =
       Some (Inr [\<lparr>name = ''zed'', id_pair = 132\<rparr>, \<lparr>name = ''amy'', id_pair = 566\<rparr>])"
proof -
  have a: "tbl3 1 = Some 44" by (rule file3_reads)
  have b: "read_u32 file3 (unat (44 :: u32) + 0x2C) = Some 2" by (simp add: file3_reads)
  have c: "history_chain file3 tbl3 2 [2, 3]"
    by (simp add: file3_history_2 file3_history_3)
  from C7_bootstrap_and_chain_order [OF a b c] a b c show ?thesis
    by (simp add: pushed_by_def file3_history_2 file3_history_3)
qed

text \<open>
  C8. In both scans a cursor of 0 ends the loop at once, with the vector as it stands,
  and the table entry of ID 0 is never read: whatever value \<open>v\<close> the table holds at index
  0, \<^verbatim>\<open>get_history\<close> and \<^verbatim>\<open>get_messages\<close> do the same, be it returning a result, failing or
  not returning.
\<close>

theorem C8_zero_ends_both_loops:
  "get_history_loop file offset_table 0 emails = Some (Inr emails)
   \<and> get_messages_loop file offset_table 0 msgs = Some (Inr msgs)
   \<and> get_history file (offset_table(0 := v)) = get_history file offset_table
   \<and> get_messages file (offset_table(0 := v)) email = get_messages file offset_table email"
  by (simp add: get_history_loop_0 get_messages_loop_0 get_history_def get_messages_def
      get_history_loop_entry_0 get_messages_loop_entry_0 split: option.splits)

text \<open>
  C10. The signature test of \<^verbatim>\<open>get_history\<close>, a \<^verbatim>\<open>memmem\<close> search for the 22 marker bytes
  in the 22 bytes at \<open>(record_offset + 4) + 0x190\<close>, is an exact comparison: on every file,
  table and record, the pass of the loop does what it would do if it asked whether those
  22 bytes are, byte for byte, the UTF-16LE encoding of \<^verbatim>\<open>mrahistory_\<close>.
\<close>

theorem C10_memmem_is_exact_comparison:
  "get_history_body file offset_table last_email =
   get_history_body_exact file offset_table last_email"
proof (cases "offset_table (unat last_email)")
  case None
  then show ?thesis
    by (simp add: get_history_body_def get_history_body_exact_def)
next
  case (Some current_offset)
  show ?thesis
  proof (cases "read_bytes file (unat current_offset + 4 + 0x190) 22")
    case None
    with Some show ?thesis
      by (simp add: get_history_body_def get_history_body_exact_def MRAHISTORY_OFFSET_def
          length_mrahistory)
  next
    case (Some window)
    from memmem_signature_equal [OF this] Some \<open>offset_table (unat last_email) = Some current_offset\<close>
    show ?thesis
      by (simp add: get_history_body_def get_history_body_exact_def MRAHISTORY_OFFSET_def
          length_mrahistory)
  qed
qed

theorem C10_memmem_is_exact_comparison_witness:
  "signature_equal file2 514
   \<and> get_history_body_exact file2 tbl2 3 = Inr (Some \<lparr>name = ''bob'', id_pair = 554\<rparr>, 4)
   \<and> \<not> signature_equal file2 88
   \<and> get_history_body_exact file2 tbl2 2 = Inr (None, 3)"
proof -
  have not_marker: "replicate 22 (0 :: u8) \<noteq> mrahistory"
  proof
    assume "replicate 22 (0 :: u8) = mrahistory"
    then have "hd (replicate 22 (0 :: u8)) = hd mrahistory" by simp
    then show False by (simp add: mrahistory_def)
  qed
  have "signature_equal file2 514" "\<not> signature_equal file2 88"
    using file2_reads not_marker by (simp_all add: signature_equal_iff)
  with C10_memmem_is_exact_comparison [of file2 tbl2 3]
    C10_memmem_is_exact_comparison [of file2 tbl2 2]
  show ?thesis by (simp add: file2_history_3 file2_history_2)
qed

end
